theory Spec2Isabelle
  imports Complex_Main "HOL-Library.Word" "HOL-Library.Signed_Division"
begin

unbundle bit_operations_syntax

section \<open>Data model of the attitude module (attitude.c)\<close>

text \<open>
  The module computes in C \<open>float\<close>. Here a \<open>float\<close> is a \<open>real\<close> and every
  arithmetic operation is exact: rounding, overflow to infinity and not-a-number are
  outside this model. Float literals are the decimal fractions the source writes
  (\<open>1.0e-3f\<close> is \<open>1 / 1000\<close>), \<open>sqrtf\<close> is \<open>sqrt\<close>, and the C test \<open>x != x\<close>
  (true only of a not-a-number) is written as it stands, where it is never true.
  Fixed-width integers are words, the signed ones read through \<open>sint\<close>:
  \<open>int16_t\<close> is \<open>16 word\<close>, \<open>int32_t\<close> is \<open>32 word\<close>, and so is the tick
  counter \<open>portTickType\<close>, read through \<open>unat\<close>.
  A C array \<open>float[3]\<close> is a triple, \<open>float[4]\<close> a quadruple, \<open>float[3][3]\<close> a
  triple of rows.
\<close>

type_synonym vec3 = "real \<times> real \<times> real"
type_synonym quat = "real \<times> real \<times> real \<times> real"
type_synonym mat33 = "vec3 \<times> vec3 \<times> vec3"
type_synonym int16 = "16 word"
type_synonym int32 = "32 word"
type_synonym portTickType = "32 word"

text \<open>\<open>fourthOrderData\<close>: the last four inputs and the last four outputs of one axis.\<close>

record fourthOrderData =
  inputTm1 :: real
  inputTm2 :: real
  inputTm3 :: real
  inputTm4 :: real
  outputTm1 :: real
  outputTm2 :: real
  outputTm3 :: real
  outputTm4 :: real

type_synonym filterBank = "fourthOrderData \<times> fourthOrderData \<times> fourthOrderData"

text \<open>
  The UAVObject types come from generated headers that are not among the sources.
  Modelled from the spec: section 6 lists the fields of the settings snapshot, of the
  flight-armed status, of the attitude estimate and of the conditioned sensor objects.
\<close>

datatype TrimFlightOptions =
  ATTITUDESETTINGS_TRIMFLIGHT_NORMAL
  | ATTITUDESETTINGS_TRIMFLIGHT_START
  | ATTITUDESETTINGS_TRIMFLIGHT_LOAD

datatype ArmedOptions =
  FLIGHTSTATUS_ARMED_DISARMED
  | FLIGHTSTATUS_ARMED_ARMING
  | FLIGHTSTATUS_ARMED_ARMED

datatype alarm_level = SYSTEMALARMS_ALARM_CLEAR | SYSTEMALARMS_ALARM_ERROR

record AttitudeSettingsData =
  AccelKp :: real
  AccelKi :: real
  YawBiasRate :: real
  GyroGain :: real
  ZeroDuringArming :: bool
  BiasCorrectGyro :: bool
  AccelBias :: "int16 \<times> int16 \<times> int16"
  GyroBias :: "int16 \<times> int16 \<times> int16"
  BoardRotation :: "int16 \<times> int16 \<times> int16"
  TrimFlight :: TrimFlightOptions

record GyrosData =
  Gyros_x :: real
  Gyros_y :: real
  Gyros_z :: real
  Gyros_temperature :: real

record AccelsData =
  Accels_x :: real
  Accels_y :: real
  Accels_z :: real
  Accels_temperature :: real

record AttitudeActualData =
  q1 :: real
  q2 :: real
  q3 :: real
  q4 :: real
  Roll :: real
  Pitch :: real
  Yaw :: real

text \<open>One entry of the sensor queue (\<open>struct pios_mpu6050_data\<close>): raw counts.\<close>

record pios_mpu6050_data =
  gyro_x :: int16
  gyro_y :: int16
  gyro_z :: int16
  accel_x :: int16
  accel_y :: int16
  accel_z :: int16
  temperature :: int16

text \<open>Every \<open>...Set\<close> call on a UAVObject is one entry of the publish log.\<close>

datatype uavo_set =
  GyrosSet GyrosData
  | AccelsSet AccelsData
  | AttitudeActualSet AttitudeActualData
  | AttitudeSettingsSet AttitudeSettingsData

text \<open>
  What the sources use and do not define is a parameter of the model: the sensor scale
  factors, the two FreeRTOS tick macros, and the conversions of CoordinateConversions.h
  that build the board rotation and the Euler angles.
\<close>

record platform =
  PIOS_MPU6050_GetScale :: real
  PIOS_MPU6050_GetAccelScale :: real
  portTICK_RATE_MS :: portTickType
  portMAX_DELAY :: portTickType
  RPY2Quaternion :: "vec3 \<Rightarrow> quat"
  Quaternion2R :: "quat \<Rightarrow> mat33"
  Quaternion2RPY :: "quat \<Rightarrow> vec3"

text \<open>
  The module's static variables, the two locals that outlive a cycle (\<open>init\<close> of
  \<open>AttitudeTask\<close>, \<open>lastSysTime\<close> of \<open>updateAttitude\<close>), and the part of the outside
  world the module writes: the settings object, the attitude alarm, the publish log.
\<close>

record attitude_state =
  gyro_correct_int :: vec3
  accelKi :: real
  accelKp :: real
  accel_filter_enabled :: bool
  accels_filtered :: vec3
  grot_filtered :: vec3
  yawBiasRate :: real
  gyroGain :: real
  accelbias :: "int16 \<times> int16 \<times> int16"
  q :: quat
  R :: mat33
  rotate :: bool
  zero_during_arming :: bool
  bias_correct_gyro :: bool
  trim_requested :: bool
  trim_accels :: "int32 \<times> int32 \<times> int32"
  trim_samples :: int32
  filterParams_acc :: filterBank
  filterParams_grot :: filterBank
  init :: "8 word"
  lastSysTime :: portTickType
  attitudeSettings :: AttitudeSettingsData
  alarm :: alarm_level
  published :: "uavo_set list"

text \<open>
  What one iteration of the task loop reads from outside: the tick counter (read twice by
  the mode test and once by \<open>updateAttitude\<close>), the armed status, the read-only flags of
  the three objects, the sensor queue (\<open>None\<close> when \<open>xQueueReceive\<close> finds it empty
  after \<open>SENSOR_PERIOD\<close> ticks), and whatever the uninitialised locals \<open>accels\<close> and
  \<open>gyros\<close> of \<open>AttitudeTask\<close> hold when the iteration starts.
\<close>

record cycle_input =
  tick_first :: portTickType
  tick_second :: portTickType
  tick_attitude :: portTickType
  Armed :: ArmedOptions
  GyrosReadOnly :: bool
  AccelsReadOnly :: bool
  AttitudeActualReadOnly :: bool
  queue :: "pios_mpu6050_data option"
  stack_accels :: AccelsData
  stack_gyros :: GyrosData

datatype fault = DivisionByZero | SignedOverflow | FloatToIntOverflow

definition GRAV :: real where
  "GRAV = 981 / 100"

definition ACCEL_SCALE :: real where
  "ACCEL_SCALE = GRAV * (4 / 1000)"

definition MAX_TRIM_FLIGHT_SAMPLES :: int32 where
  "MAX_TRIM_FLIGHT_SAMPLES = 65535"

definition M_PI :: real where
  "M_PI = 314159265358979323846 / 100000000000000000000"

section \<open>The low-pass filter\<close>

definition b0 :: real where "b0 = 98778675104 / 100000000000000"
definition b1 :: real where "b1 = - (376234890193 / 100000000000000)"
definition b2 :: real where "b2 = 555374469529 / 100000000000000"
definition b3 :: real where "b3 = - (376234890193 / 100000000000000)"
definition b4 :: real where "b4 = 98778675104 / 100000000000000"

definition a1 :: real where "a1 = - (387812973499889 / 100000000000000)"
definition a2 :: real where "a2 = 564176257281588 / 100000000000000"
definition a3 :: real where "a3 = - (364887595541910 / 100000000000000)"
definition a4 :: real where "a4 = 88524773799562 / 100000000000000"

definition computeFourthOrder :: "real \<Rightarrow> fourthOrderData \<Rightarrow> real \<times> fourthOrderData" where
  "computeFourthOrder currentInput filterParameters =
     (let output =
            b0 * currentInput +
            b1 * inputTm1 filterParameters +
            b2 * inputTm2 filterParameters +
            b3 * inputTm3 filterParameters +
            b4 * inputTm4 filterParameters -
            a1 * outputTm1 filterParameters -
            a2 * outputTm2 filterParameters -
            a3 * outputTm3 filterParameters -
            a4 * outputTm4 filterParameters
      in (output,
          \<lparr>inputTm1 = currentInput,
           inputTm2 = inputTm1 filterParameters,
           inputTm3 = inputTm2 filterParameters,
           inputTm4 = inputTm3 filterParameters,
           outputTm1 = output,
           outputTm2 = outputTm1 filterParameters,
           outputTm3 = outputTm2 filterParameters,
           outputTm4 = outputTm3 filterParameters\<rparr>))"

text \<open>
  \<open>apply_accel_filter\<close> reads the static flag \<open>accel_filter_enabled\<close>; the flag is
  the first argument here. The result is the filtered vector and the three filter states.
\<close>

definition apply_accel_filter :: "bool \<Rightarrow> vec3 \<Rightarrow> filterBank \<Rightarrow> vec3 \<times> filterBank" where
  "apply_accel_filter enabled raw filterParams =
     (case (raw, filterParams) of ((raw0, raw1, raw2), (fp0, fp1, fp2)) \<Rightarrow>
        if enabled then
          (let (f0, fp0') = computeFourthOrder raw0 fp0;
               (f1, fp1') = computeFourthOrder raw1 fp1;
               (f2, fp2') = computeFourthOrder raw2 fp2
           in ((f0, f1, f2), (fp0', fp1', fp2')))
        else ((raw0, raw1, raw2), (fp0, fp1, fp2)))"

text \<open>
  The recurrence as the specification words it: coefficient tables \<open>b\<close> (k = 0..4) and
  \<open>a\<close> (k = 1..4), the input history and the output history newest first.
\<close>

definition b_table :: "real list" where
  "b_table = [98778675104 / 100000000000000, - (376234890193 / 100000000000000),
              555374469529 / 100000000000000, - (376234890193 / 100000000000000),
              98778675104 / 100000000000000]"

definition a_table :: "real list" where
  "a_table = [- (387812973499889 / 100000000000000), 564176257281588 / 100000000000000,
              - (364887595541910 / 100000000000000), 88524773799562 / 100000000000000]"

definition spec_recurrence :: "real list \<Rightarrow> real list \<Rightarrow> real" where
  "spec_recurrence inputs outputs =
     (\<Sum>k = 0..<5. b_table ! k * inputs ! k) - (\<Sum>k = 1..<5. a_table ! (k - 1) * outputs ! (k - 1))"

definition input_history :: "fourthOrderData \<Rightarrow> real list" where
  "input_history fp = [inputTm1 fp, inputTm2 fp, inputTm3 fp, inputTm4 fp]"

definition output_history :: "fourthOrderData \<Rightarrow> real list" where
  "output_history fp = [outputTm1 fp, outputTm2 fp, outputTm3 fp, outputTm4 fp]"

section \<open>Helpers of CoordinateConversions.h\<close>

text \<open>
  Modelled from the spec: \<open>CrossProduct\<close> and \<open>rot_mult\<close> are declared in
  CoordinateConversions.h, which is not among the sources. The specification calls
  them the cross product of two vectors ("Error vector = cross(filtered_accel,
  filtered_gravity)") and the product of the rotation matrix with a vector.
\<close>

definition CrossProduct :: "vec3 \<Rightarrow> vec3 \<Rightarrow> vec3" where
  "CrossProduct v1 v2 =
     (case (v1, v2) of ((x1, y1, z1), (x2, y2, z2)) \<Rightarrow>
        (y1 * z2 - z1 * y2, z1 * x2 - x1 * z2, x1 * y2 - y1 * x2))"

definition rot_mult :: "mat33 \<Rightarrow> vec3 \<Rightarrow> vec3" where
  "rot_mult M v =
     (case (M, v) of (((m00, m01, m02), (m10, m11, m12), (m20, m21, m22)), (v0, v1, v2)) \<Rightarrow>
        (m00 * v0 + m01 * v1 + m02 * v2,
         m10 * v0 + m11 * v1 + m12 * v2,
         m20 * v0 + m21 * v1 + m22 * v2))"

section \<open>C integer operations that can fault\<close>

text \<open>
  \<open>int32_t / int32_t\<close>: the quotient truncated towards zero; undefined for a zero
  divisor and for \<open>INT32_MIN / -1\<close>, which are faults here.
\<close>

definition int32_div :: "int32 \<Rightarrow> int32 \<Rightarrow> fault + int32" where
  "int32_div a b =
     (if b = 0 then Inl DivisionByZero
      else if sint a = - (2 ^ 31) \<and> sint b = - 1 then Inl SignedOverflow
      else Inr (word_of_int (sint a sdiv sint b)))"

text \<open>
  \<open>float\<close> to \<open>int16_t\<close>: the fraction is discarded; undefined when the integral part
  does not fit, a fault here.
\<close>

definition float_to_int16 :: "real \<Rightarrow> fault + int16" where
  "float_to_int16 x =
     (let t = (if 0 \<le> x then \<lfloor>x\<rfloor> else \<lceil>x\<rceil>)
      in if - 32768 \<le> t \<and> t \<le> 32767 then Inr (word_of_int t) else Inl FloatToIntOverflow)"

section \<open>settingsUpdatedCb\<close>

text \<open>
  The callback reads the settings object (\<open>AttitudeSettingsGet\<close>) and copies it into
  the statics. A \<open>LOAD\<close> command divides the trim sums by \<open>trim_samples\<close> and writes
  the result back to the settings object (\<open>AttitudeSettingsSet\<close>); the narrowing of the
  \<open>int32_t\<close> quotients to the \<open>int16_t\<close> fields keeps the low 16 bits.
\<close>

definition settingsUpdatedCb :: "platform \<Rightarrow> attitude_state \<Rightarrow> fault + attitude_state" where
  "settingsUpdatedCb P s =
     (let ats = attitudeSettings s;
          (gbx, gby, gbz) = GyroBias ats;
          (brr, brp, bry) = BoardRotation ats;
          s1 = s\<lparr>accelKp := AccelKp ats,
                 accelKi := AccelKi ats,
                 yawBiasRate := YawBiasRate ats,
                 gyroGain := GyroGain ats,
                 zero_during_arming := ZeroDuringArming ats,
                 bias_correct_gyro := BiasCorrectGyro ats,
                 accelbias := AccelBias ats,
                 gyro_correct_int :=
                   (real_of_int (sint gbx) / 100,
                    real_of_int (sint gby) / 100,
                    real_of_int (sint gbz) / 100)\<rparr>;
          s2 = (if brr = 0 \<and> brp = 0 \<and> bry = 0
                then s1\<lparr>rotate := False, R := Quaternion2R P (1, 0, 0, 0)\<rparr>
                else s1\<lparr>R := Quaternion2R P
                             (RPY2Quaternion P
                               (real_of_int (sint brr), real_of_int (sint brp),
                                real_of_int (sint bry))),
                        rotate := True\<rparr>)
      in if TrimFlight ats = ATTITUDESETTINGS_TRIMFLIGHT_START
         then Inr (s2\<lparr>trim_accels := (0, 0, 0), trim_samples := 0, trim_requested := True\<rparr>)
         else if TrimFlight ats = ATTITUDESETTINGS_TRIMFLIGHT_LOAD
         then
           (let s3 = s2\<lparr>trim_requested := False\<rparr>;
                (t0, t1, t2) = trim_accels s3;
                n = trim_samples s3
            in case int32_div t0 n of Inl e \<Rightarrow> Inl e | Inr mx \<Rightarrow>
               (case int32_div t1 n of Inl e \<Rightarrow> Inl e | Inr my \<Rightarrow>
               (case int32_div t2 n of Inl e \<Rightarrow> Inl e | Inr mz \<Rightarrow>
               (case float_to_int16 (real_of_int (sint mz) + GRAV / ACCEL_SCALE) of
                  Inl e \<Rightarrow> Inl e
                | Inr bz \<Rightarrow>
                  (let ats' = ats\<lparr>AccelBias := (ucast mx, ucast my, bz),
                                   TrimFlight := ATTITUDESETTINGS_TRIMFLIGHT_NORMAL\<rparr>
                   in Inr (s3\<lparr>attitudeSettings := ats',
                               published := published s3 @ [AttitudeSettingsSet ats']\<rparr>))))))
         else Inr (s2\<lparr>trim_requested := False\<rparr>))"

section \<open>updateSensorsCC3D\<close>

text \<open>
  The MPU6050 branch of the source (\<open>PIOS_INCLUDE_MPU6050\<close> defined). The result is the
  return value, the two structures the caller passed by pointer, and the state.
\<close>

definition updateSensorsCC3D ::
  "platform \<Rightarrow> cycle_input \<Rightarrow> AccelsData \<Rightarrow> GyrosData \<Rightarrow> attitude_state
     \<Rightarrow> int \<times> AccelsData \<times> GyrosData \<times> attitude_state" where
  "updateSensorsCC3D P inp accelsData gyrosData s =
     (if GyrosReadOnly inp \<or> AccelsReadOnly inp then (0, accelsData, gyrosData, s)
      else case queue inp of
        None \<Rightarrow> (- 1, accelsData, gyrosData, s)
      | Some mpu6050_data \<Rightarrow>
         (let gyros0 = (real_of_int (sint (gyro_x mpu6050_data)) * PIOS_MPU6050_GetScale P,
                        real_of_int (- sint (gyro_y mpu6050_data)) * PIOS_MPU6050_GetScale P,
                        real_of_int (- sint (gyro_z mpu6050_data)) * PIOS_MPU6050_GetScale P);
              accels0 = (real_of_int (sint (accel_x mpu6050_data)) * PIOS_MPU6050_GetAccelScale P,
                         real_of_int (- sint (accel_y mpu6050_data)) * PIOS_MPU6050_GetAccelScale P,
                         real_of_int (- sint (accel_z mpu6050_data)) * PIOS_MPU6050_GetAccelScale P);
              temp = 35 + (real_of_int (sint (temperature mpu6050_data)) + 512) / 340;
              (accels_0, accels_1, accels_2) =
                 (if rotate s then rot_mult (R s) accels0 else accels0);
              (gyros_0, gyros_1, gyros_2) =
                 (if rotate s then rot_mult (R s) gyros0 else gyros0);
              (ab0, ab1, ab2) = accelbias s;
              (gci0, gci1, gci2) = gyro_correct_int s;
              accelsData' = accelsData\<lparr>Accels_temperature := temp,
                               Accels_x := accels_0 - real_of_int (sint ab0) * ACCEL_SCALE,
                               Accels_y := accels_1 - real_of_int (sint ab1) * ACCEL_SCALE,
                               Accels_z := accels_2 - real_of_int (sint ab2) * ACCEL_SCALE\<rparr>;
              gyrosData1 = gyrosData\<lparr>Gyros_temperature := temp,
                               Gyros_x := gyros_0, Gyros_y := gyros_1, Gyros_z := gyros_2\<rparr>;
              gyrosData' = (if bias_correct_gyro s
                            then gyrosData1\<lparr>Gyros_x := Gyros_x gyrosData1 + gci0,
                                            Gyros_y := Gyros_y gyrosData1 + gci1,
                                            Gyros_z := Gyros_z gyrosData1 + gci2\<rparr>
                            else gyrosData1);
              s1 = s\<lparr>gyro_correct_int :=
                        (gci0, gci1, gci2 + - Gyros_z gyrosData' * yawBiasRate s)\<rparr>
          in (0, accelsData', gyrosData',
              s1\<lparr>published := published s1 @ [GyrosSet gyrosData', AccelsSet accelsData']\<rparr>)))"

section \<open>updateAttitude\<close>

text \<open>
  The time step (line 383): 1 ms when the tick counter has not moved, otherwise the
  masked tick difference divided by \<open>portTICK_RATE_MS\<close> (an unsigned integer
  division) and then by \<open>1000.0f\<close>.
\<close>

definition updateAttitude_dT :: "platform \<Rightarrow> portTickType \<Rightarrow> portTickType \<Rightarrow> real" where
  "updateAttitude_dT P thisSysTime lastSysTime' =
     (if thisSysTime = lastSysTime' then 1 / 1000
      else real (unat ((portMAX_DELAY P AND (thisSysTime - lastSysTime')) div portTICK_RATE_MS P))
             / 1000)"

text \<open>Gravity rotated to the body frame (lines 397 to 399).\<close>

definition updateAttitude_grot :: "quat \<Rightarrow> vec3" where
  "updateAttitude_grot qv =
     (case qv of (qa, qb, qc, qd) \<Rightarrow>
        (- (2 * (qb * qd - qa * qc)),
         - (2 * (qc * qd + qa * qb)),
         - (qa * qa - qb * qb - qc * qc + qd * qd)))"

definition vector_mag :: "vec3 \<Rightarrow> real" where
  "vector_mag v = (case v of (v0, v1, v2) \<Rightarrow> sqrt (v0 * v0 + v1 * v1 + v2 * v2))"

text \<open>The time step of the quaternion and its sign convention (lines 436 to 457).\<close>

definition updateAttitude_step :: "quat \<Rightarrow> vec3 \<Rightarrow> real \<Rightarrow> quat" where
  "updateAttitude_step qv gyros dT =
     (case (qv, gyros) of ((qa, qb, qc, qd), (g0, g1, g2)) \<Rightarrow>
        (let qdot0 = (- qb * g0 - qc * g1 - qd * g2) * dT * M_PI / 180 / 2;
             qdot1 = (qa * g0 - qd * g1 + qc * g2) * dT * M_PI / 180 / 2;
             qdot2 = (qd * g0 + qa * g1 - qb * g2) * dT * M_PI / 180 / 2;
             qdot3 = (- qc * g0 + qb * g1 + qa * g2) * dT * M_PI / 180 / 2;
             qa' = qa + qdot0;
             qb' = qb + qdot1;
             qc' = qc + qdot2;
             qd' = qd + qdot3
         in if qa' < 0 then (- qa', - qb', - qc', - qd') else (qa', qb', qc', qd')))"

text \<open>
  Renormalisation and the reset of a short quaternion (lines 459 to 473). The division
  by \<open>qmag\<close> comes first, as in the source; when \<open>qmag\<close> is zero its result is
  overwritten by the reset.
\<close>

definition updateAttitude_renormalize :: "quat \<Rightarrow> quat" where
  "updateAttitude_renormalize qv =
     (case qv of (qa, qb, qc, qd) \<Rightarrow>
        (let qmag = sqrt (qa * qa + qb * qb + qc * qc + qd * qd);
             qn = (qa / qmag, qb / qmag, qc / qmag, qd / qmag)
         in if \<bar>qmag\<bar> < 1 / 1000 \<or> qmag \<noteq> qmag then (1, 0, 0, 0) else qn))"

definition updateAttitude ::
  "platform \<Rightarrow> portTickType \<Rightarrow> AccelsData \<Rightarrow> GyrosData \<Rightarrow> attitude_state \<Rightarrow> attitude_state" where
  "updateAttitude P thisSysTime accelsData gyrosData s =
     (let dT = updateAttitude_dT P thisSysTime (lastSysTime s);
          s1 = s\<lparr>lastSysTime := thisSysTime\<rparr>;
          gyros = (Gyros_x gyrosData, Gyros_y gyrosData, Gyros_z gyrosData);
          accels = (Accels_x accelsData, Accels_y accelsData, Accels_z accelsData);
          (af, fpa) = apply_accel_filter (accel_filter_enabled s1) accels (filterParams_acc s1);
          s2 = s1\<lparr>accels_filtered := af, filterParams_acc := fpa\<rparr>;
          grot = updateAttitude_grot (q s2);
          (gf, fpg) = apply_accel_filter (accel_filter_enabled s2) grot (filterParams_grot s2);
          s3 = s2\<lparr>grot_filtered := gf, filterParams_grot := fpg\<rparr>;
          accel_err = CrossProduct (accels_filtered s3) (grot_filtered s3);
          accel_mag = vector_mag (accels_filtered s3)
      in if accel_mag < 1 / 1000 then s3
         else
           (let grot_mag = (if accel_filter_enabled s3 then vector_mag (grot_filtered s3) else 1)
            in if grot_mag < 1 / 1000 then s3
               else
                 (let (e0, e1, e2) = accel_err;
                      err0 = e0 / (accel_mag * grot_mag);
                      err1 = e1 / (accel_mag * grot_mag);
                      err2 = e2 / (accel_mag * grot_mag);
                      (gci0, gci1, gci2) = gyro_correct_int s3;
                      s4 = s3\<lparr>gyro_correct_int :=
                                (gci0 + err0 * accelKi s3, gci1 + err1 * accelKi s3, gci2)\<rparr>;
                      (g0, g1, g2) = gyros;
                      gyros' = (g0 + err0 * accelKp s4 / dT,
                                g1 + err1 * accelKp s4 / dT,
                                g2 + err2 * accelKp s4 / dT);
                      qn = updateAttitude_renormalize (updateAttitude_step (q s4) gyros' dT);
                      s5 = s4\<lparr>q := qn\<rparr>;
                      (qa, qb, qc, qd) = qn;
                      (roll, pitch, yaw) = Quaternion2RPY P qn
                  in s5\<lparr>published := published s5 @
                          [AttitudeActualSet
                             \<lparr>q1 = qa, q2 = qb, q3 = qc, q4 = qd,
                              Roll = roll, Pitch = pitch, Yaw = yaw\<rparr>]\<rparr>)))"

section \<open>AttitudeInitialize and AttitudeTask\<close>

text \<open>
  The statics as their initialisers and \<open>AttitudeInitialize\<close> leave them. The settings
  object, the stored attitude object and the alarm belong to the outside world and are
  arguments. \<open>AttitudeInitialize\<close> publishes the stored attitude object with the identity
  quaternion written into it.
\<close>

definition zero_filter :: fourthOrderData where
  "zero_filter = \<lparr>inputTm1 = 0, inputTm2 = 0, inputTm3 = 0, inputTm4 = 0,
                  outputTm1 = 0, outputTm2 = 0, outputTm3 = 0, outputTm4 = 0\<rparr>"

definition AttitudeInitialize ::
  "AttitudeSettingsData \<Rightarrow> AttitudeActualData \<Rightarrow> alarm_level \<Rightarrow> attitude_state" where
  "AttitudeInitialize settings attitude al =
     \<lparr>gyro_correct_int = (0, 0, 0),
      accelKi = 0,
      accelKp = 0,
      accel_filter_enabled = False,
      accels_filtered = (0, 0, 0),
      grot_filtered = (0, 0, 0),
      yawBiasRate = 0,
      gyroGain = 42 / 100,
      accelbias = (0, 0, 0),
      q = (1, 0, 0, 0),
      R = ((0, 0, 0), (0, 0, 0), (0, 0, 0)),
      rotate = False,
      zero_during_arming = False,
      bias_correct_gyro = True,
      trim_requested = False,
      trim_accels = (0, 0, 0),
      trim_samples = 0,
      filterParams_acc = (zero_filter, zero_filter, zero_filter),
      filterParams_grot = (zero_filter, zero_filter, zero_filter),
      init = 0,
      lastSysTime = 0,
      attitudeSettings = settings,
      alarm = al,
      published = [AttitudeActualSet (attitude\<lparr>q1 := 1, q2 := 0, q3 := 0, q4 := 0\<rparr>)]\<rparr>"

text \<open>The choice of gains at the head of the task loop (lines 247 to 268).\<close>

definition AttitudeTask_gains :: "cycle_input \<Rightarrow> attitude_state \<Rightarrow> attitude_state" where
  "AttitudeTask_gains inp s =
     (if tick_first inp < 7000 \<and> tick_second inp > 1000
      then s\<lparr>accelKp := 1, accelKi := 9 / 10, yawBiasRate := 23 / 100,
              accel_filter_enabled := False, init := 0\<rparr>
      else if zero_during_arming s \<and> Armed inp = FLIGHTSTATUS_ARMED_ARMING
      then s\<lparr>accelKp := 1, accelKi := 9 / 10, yawBiasRate := 23 / 100,
              accel_filter_enabled := False, init := 0\<rparr>
      else if init s = 0
      then s\<lparr>accelKi := AccelKi (attitudeSettings s),
              accelKp := AccelKp (attitudeSettings s),
              yawBiasRate := YawBiasRate (attitudeSettings s),
              accel_filter_enabled := True, init := 1\<rparr>
      else s)"

text \<open>One iteration of the \<open>while (1)\<close> loop of \<open>AttitudeTask\<close> (lines 244 to 287).\<close>

definition AttitudeTask_cycle :: "platform \<Rightarrow> cycle_input \<Rightarrow> attitude_state \<Rightarrow> attitude_state" where
  "AttitudeTask_cycle P inp s =
     (let s1 = AttitudeTask_gains inp s;
          (retval, accels, gyros, s2) =
             updateSensorsCC3D P inp (stack_accels inp) (stack_gyros inp) s1
      in if retval \<noteq> 0 then s2\<lparr>alarm := SYSTEMALARMS_ALARM_ERROR\<rparr>
         else
           (let s3 = (if \<not> AttitudeActualReadOnly inp
                      then updateAttitude P (tick_attitude inp) accels gyros s2 else s2)
            in s3\<lparr>alarm := SYSTEMALARMS_ALARM_CLEAR\<rparr>))"

text \<open>
  The task never returns. Its run is a sequence of events: an iteration of the loop, or
  a change of the settings object by another module, after which the UAVObject manager
  calls \<open>settingsUpdatedCb\<close>. \<open>AttitudeTask\<close> is the state after the events so far, or
  the fault that stopped it.
\<close>

datatype event = Cycle cycle_input | SettingsChanged AttitudeSettingsData

fun run_events :: "platform \<Rightarrow> event list \<Rightarrow> attitude_state \<Rightarrow> fault + attitude_state" where
  "run_events P [] s = Inr s"
| "run_events P (Cycle inp # es) s = run_events P es (AttitudeTask_cycle P inp s)"
| "run_events P (SettingsChanged d # es) s =
     (case settingsUpdatedCb P (s\<lparr>attitudeSettings := d\<rparr>) of
        Inl e \<Rightarrow> Inl e
      | Inr s' \<Rightarrow> run_events P es s')"

definition AttitudeTask :: "platform \<Rightarrow> event list \<Rightarrow> attitude_state \<Rightarrow> fault + attitude_state" where
  "AttitudeTask P es s =
     (case settingsUpdatedCb P (s\<lparr>init := 0, alarm := SYSTEMALARMS_ALARM_CLEAR\<rparr>) of
        Inl e \<Rightarrow> Inl e
      | Inr s0 \<Rightarrow> run_events P es s0)"

section \<open>A sample platform and sample inputs\<close>

text \<open>
  Concrete values at which the theorems below are instantiated: a platform with a
  1 kHz tick (\<open>portTICK_RATE_MS = 1\<close>) and 32-bit ticks, unit sensor scales and
  trivial conversions; a settings object with tuned gains; the boot state.
\<close>

definition sample_platform :: platform where
  "sample_platform =
     \<lparr>PIOS_MPU6050_GetScale = 1, PIOS_MPU6050_GetAccelScale = 1,
      portTICK_RATE_MS = 1, portMAX_DELAY = 0xFFFFFFFF,
      RPY2Quaternion = (\<lambda>v. (1, 0, 0, 0)),
      Quaternion2R = (\<lambda>v. ((1, 0, 0), (0, 1, 0), (0, 0, 1))),
      Quaternion2RPY = (\<lambda>v. (0, 0, 0))\<rparr>"

definition sample_settings :: AttitudeSettingsData where
  "sample_settings =
     \<lparr>AccelKp = 1 / 20, AccelKi = 1 / 10000, YawBiasRate = 1 / 1000000, GyroGain = 42 / 100,
      ZeroDuringArming = True, BiasCorrectGyro = True,
      AccelBias = (0, 0, 0), GyroBias = (0, 0, 0), BoardRotation = (0, 0, 0),
      TrimFlight = ATTITUDESETTINGS_TRIMFLIGHT_NORMAL\<rparr>"

definition sample_attitude :: AttitudeActualData where
  "sample_attitude = \<lparr>q1 = 0, q2 = 0, q3 = 0, q4 = 0, Roll = 0, Pitch = 0, Yaw = 0\<rparr>"

definition sample_boot :: attitude_state where
  "sample_boot = AttitudeInitialize sample_settings sample_attitude SYSTEMALARMS_ALARM_CLEAR"

definition sample_accels :: AccelsData where
  "sample_accels = \<lparr>Accels_x = 0, Accels_y = 0, Accels_z = - 1, Accels_temperature = 0\<rparr>"

definition sample_gyros :: GyrosData where
  "sample_gyros = \<lparr>Gyros_x = 0, Gyros_y = 0, Gyros_z = 0, Gyros_temperature = 0\<rparr>"

definition sample_timeout :: cycle_input where
  "sample_timeout =
     \<lparr>tick_first = 0, tick_second = 0, tick_attitude = 0,
      Armed = FLIGHTSTATUS_ARMED_DISARMED,
      GyrosReadOnly = False, AccelsReadOnly = False, AttitudeActualReadOnly = False,
      queue = None, stack_accels = sample_accels, stack_gyros = sample_gyros\<rparr>"

definition sample_mpu6050 :: pios_mpu6050_data where
  "sample_mpu6050 =
     \<lparr>gyro_x = 0, gyro_y = 0, gyro_z = 0, accel_x = 0, accel_y = 0, accel_z = 0,
      temperature = 0\<rparr>"

definition sample_cycle :: cycle_input where
  "sample_cycle = sample_timeout\<lparr>queue := Some sample_mpu6050\<rparr>"

section \<open>Predicates of the statements\<close>

text \<open>
  The norm of a quaternion, as line 460 computes it, and the canonical form of the
  estimate: unit norm, non-negative scalar part.
\<close>

definition quat_norm :: "quat \<Rightarrow> real" where
  "quat_norm qv = (case qv of (qa, qb, qc, qd) \<Rightarrow> sqrt (qa * qa + qb * qb + qc * qc + qd * qd))"

definition quat_ok :: "quat \<Rightarrow> bool" where
  "quat_ok qv \<longleftrightarrow> quat_norm qv = 1 \<and> 0 \<le> fst qv"

text \<open>
  The two guards of \<open>updateAttitude\<close> (lines 407 and 418), read off the filtered vectors
  that the call leaves in the statics: \<open>s\<close> is the state before the call, \<open>u\<close> the
  state after it. The second guard compares \<open>grot_mag\<close>, which is the magnitude of the
  filtered gravity vector only when the filter is enabled, and the constant 1 otherwise.
\<close>

definition fusion_aborts :: "attitude_state \<Rightarrow> attitude_state \<Rightarrow> bool" where
  "fusion_aborts s u \<longleftrightarrow>
     vector_mag (accels_filtered u) < 1 / 1000
     \<or> (accel_filter_enabled s \<and> vector_mag (grot_filtered u) < 1 / 1000)"

section \<open>The filter computes the specified recurrence\<close>

lemma sum_upto_5: "(\<Sum>k = 0..<5. f k) = f 0 + f 1 + f 2 + f 3 + f (4::nat)"
  by (simp add: eval_nat_numeral)

lemma sum_1_upto_5: "(\<Sum>k = Suc 0..<5. f k) = f (Suc 0) + f 2 + f 3 + f (4::nat)"
  by (simp add: eval_nat_numeral sum.atLeast_Suc_lessThan)

text \<open>
  C6. One call of the filter returns
  \<open>\<Sum> b[k] * input[t-k] - \<Sum> a[k] * output[t-k]\<close> over the coefficient tables of the
  specification, where \<open>input[t]\<close> is the current input and the histories hold the four
  previous inputs and outputs; afterwards each history is the old one with the new value
  shifted in and the oldest dropped. With the filter disabled, \<open>apply_accel_filter\<close>
  returns the raw vector and the filter states as they were; enabled, it runs the
  recurrence on each of the three axes with that axis's own state.
\<close>

theorem iir_filter_recurrence:
  "fst (computeFourthOrder x fp) = spec_recurrence (x # input_history fp) (output_history fp)
   \<and> input_history (snd (computeFourthOrder x fp)) = take 4 (x # input_history fp)
   \<and> output_history (snd (computeFourthOrder x fp))
       = take 4 (fst (computeFourthOrder x fp) # output_history fp)
   \<and> apply_accel_filter False raw fps = (raw, fps)
   \<and> apply_accel_filter True (r0, r1, r2) (f0, f1, f2)
       = ((fst (computeFourthOrder r0 f0), fst (computeFourthOrder r1 f1),
           fst (computeFourthOrder r2 f2)),
          (snd (computeFourthOrder r0 f0), snd (computeFourthOrder r1 f1),
           snd (computeFourthOrder r2 f2)))"
proof -
  have rec: "fst (computeFourthOrder x fp)
               = spec_recurrence (x # input_history fp) (output_history fp)"
    by (simp add: computeFourthOrder_def spec_recurrence_def sum_upto_5 sum_1_upto_5
        input_history_def output_history_def b_table_def a_table_def
        b0_def b1_def b2_def b3_def b4_def a1_def a2_def a3_def a4_def Let_def)
  have hin: "input_history (snd (computeFourthOrder x fp)) = take 4 (x # input_history fp)"
    by (simp add: computeFourthOrder_def input_history_def Let_def)
  have hout: "output_history (snd (computeFourthOrder x fp))
                = take 4 (fst (computeFourthOrder x fp) # output_history fp)"
    by (simp add: computeFourthOrder_def output_history_def Let_def)
  have bypass: "apply_accel_filter False raw fps = (raw, fps)"
    by (cases raw, cases fps) (simp add: apply_accel_filter_def)
  have on: "apply_accel_filter True (r0, r1, r2) (f0, f1, f2)
       = ((fst (computeFourthOrder r0 f0), fst (computeFourthOrder r1 f1),
           fst (computeFourthOrder r2 f2)),
          (snd (computeFourthOrder r0 f0), snd (computeFourthOrder r1 f1),
           snd (computeFourthOrder r2 f2)))"
    by (simp add: apply_accel_filter_def split_beta)
  from rec hin hout bypass on show ?thesis by simp
qed

section \<open>Frame lemmas\<close>

lemma updateAttitude_frame:
  "accelKp (updateAttitude P t a g s) = accelKp s"
  "accelKi (updateAttitude P t a g s) = accelKi s"
  "yawBiasRate (updateAttitude P t a g s) = yawBiasRate s"
  "gyroGain (updateAttitude P t a g s) = gyroGain s"
  "accel_filter_enabled (updateAttitude P t a g s) = accel_filter_enabled s"
  "accelbias (updateAttitude P t a g s) = accelbias s"
  "R (updateAttitude P t a g s) = R s"
  "rotate (updateAttitude P t a g s) = rotate s"
  "zero_during_arming (updateAttitude P t a g s) = zero_during_arming s"
  "bias_correct_gyro (updateAttitude P t a g s) = bias_correct_gyro s"
  "trim_requested (updateAttitude P t a g s) = trim_requested s"
  "trim_accels (updateAttitude P t a g s) = trim_accels s"
  "trim_samples (updateAttitude P t a g s) = trim_samples s"
  "init (updateAttitude P t a g s) = init s"
  "attitudeSettings (updateAttitude P t a g s) = attitudeSettings s"
  "alarm (updateAttitude P t a g s) = alarm s"
  "lastSysTime (updateAttitude P t a g s) = t"
  by (simp_all add: updateAttitude_def Let_def split_beta)

lemma updateSensorsCC3D_frame:
  assumes "updateSensorsCC3D P inp a g s = (r, a', g', s')"
  shows "accelKp s' = accelKp s" "accelKi s' = accelKi s" "yawBiasRate s' = yawBiasRate s"
    "gyroGain s' = gyroGain s" "accel_filter_enabled s' = accel_filter_enabled s"
    "accelbias s' = accelbias s" "R s' = R s" "rotate s' = rotate s"
    "zero_during_arming s' = zero_during_arming s" "bias_correct_gyro s' = bias_correct_gyro s"
    "trim_requested s' = trim_requested s" "trim_accels s' = trim_accels s"
    "trim_samples s' = trim_samples s" "init s' = init s"
    "attitudeSettings s' = attitudeSettings s" "alarm s' = alarm s"
    "lastSysTime s' = lastSysTime s" "q s' = q s"
    "accels_filtered s' = accels_filtered s" "grot_filtered s' = grot_filtered s"
    "filterParams_acc s' = filterParams_acc s" "filterParams_grot s' = filterParams_grot s"
  using assms
  by (auto simp: updateSensorsCC3D_def Let_def split_beta split: if_splits option.splits)

lemma AttitudeTask_gains_frame:
  "q (AttitudeTask_gains inp s) = q s"
  "gyro_correct_int (AttitudeTask_gains inp s) = gyro_correct_int s"
  "published (AttitudeTask_gains inp s) = published s"
  "trim_samples (AttitudeTask_gains inp s) = trim_samples s"
  "trim_accels (AttitudeTask_gains inp s) = trim_accels s"
  "trim_requested (AttitudeTask_gains inp s) = trim_requested s"
  "attitudeSettings (AttitudeTask_gains inp s) = attitudeSettings s"
  "zero_during_arming (AttitudeTask_gains inp s) = zero_during_arming s"
  by (simp_all add: AttitudeTask_gains_def)

lemma updateSensorsCC3D_timeout:
  "\<not> GyrosReadOnly inp \<Longrightarrow> \<not> AccelsReadOnly inp \<Longrightarrow> queue inp = None \<Longrightarrow>
     updateSensorsCC3D P inp a g s = (- 1, a, g, s)"
  by (simp add: updateSensorsCC3D_def)

lemma AttitudeTask_cycle_success:
  "fst (updateSensorsCC3D P inp (stack_accels inp) (stack_gyros inp) (AttitudeTask_gains inp s)) = 0
     \<Longrightarrow> alarm (AttitudeTask_cycle P inp s) = SYSTEMALARMS_ALARM_CLEAR"
  by (simp add: AttitudeTask_cycle_def Let_def split_beta)

lemma updateAttitude_filtered:
  "accels_filtered (updateAttitude P t a g s)
     = fst (apply_accel_filter (accel_filter_enabled s)
              (Accels_x a, Accels_y a, Accels_z a) (filterParams_acc s))"
  "grot_filtered (updateAttitude P t a g s)
     = fst (apply_accel_filter (accel_filter_enabled s)
              (updateAttitude_grot (q s)) (filterParams_grot s))"
  by (simp_all add: updateAttitude_def Let_def split_beta)

lemma updateAttitude_abort:
  "fusion_aborts s (updateAttitude P t a g s) \<Longrightarrow>
     q (updateAttitude P t a g s) = q s
     \<and> gyro_correct_int (updateAttitude P t a g s) = gyro_correct_int s
     \<and> published (updateAttitude P t a g s) = published s"
  unfolding fusion_aborts_def updateAttitude_filtered
  by (auto simp: updateAttitude_def Let_def split_beta)

lemma updateAttitude_gyro_correct_int:
  "\<not> fusion_aborts s (updateAttitude P t a g s) \<Longrightarrow>
   gyro_correct_int (updateAttitude P t a g s) =
     (let u = updateAttitude P t a g s;
          am = vector_mag (accels_filtered u);
          gm = (if accel_filter_enabled s then vector_mag (grot_filtered u) else 1);
          (e0, e1, e2) = CrossProduct (accels_filtered u) (grot_filtered u);
          (gci0, gci1, gci2) = gyro_correct_int s
      in (gci0 + e0 / (am * gm) * accelKi s, gci1 + e1 / (am * gm) * accelKi s, gci2))"
  unfolding fusion_aborts_def updateAttitude_filtered
  by (auto simp: updateAttitude_def Let_def split_beta)

lemma run_events_invariant:
  assumes "run_events P es s = Inr t" and "I s"
    and cyc: "\<And>inp s. I s \<Longrightarrow> I (AttitudeTask_cycle P inp s)"
    and cb: "\<And>d s s'. I s \<Longrightarrow> settingsUpdatedCb P (s\<lparr>attitudeSettings := d\<rparr>) = Inr s' \<Longrightarrow> I s'"
  shows "I t"
  using assms(1,2)
proof (induction es arbitrary: s)
  case Nil
  then show ?case by simp
next
  case (Cons e es)
  show ?case
  proof (cases e)
    case (Cycle inp)
    with Cons.prems have "run_events P es (AttitudeTask_cycle P inp s) = Inr t" by simp
    moreover have "I (AttitudeTask_cycle P inp s)" using Cons.prems(2) by (rule cyc)
    ultimately show ?thesis by (rule Cons.IH)
  next
    case (SettingsChanged d)
    with Cons.prems obtain s' where
      c: "settingsUpdatedCb P (s\<lparr>attitudeSettings := d\<rparr>) = Inr s'"
      and r: "run_events P es s' = Inr t"
      by (auto split: sum.splits)
    from Cons.prems(2) c have "I s'" by (rule cb)
    with r show ?thesis by (rule Cons.IH)
  qed
qed

lemma AttitudeTask_invariant:
  assumes "AttitudeTask P es (AttitudeInitialize st att al) = Inr t"
    and "I ((AttitudeInitialize st att al)\<lparr>init := 0, alarm := SYSTEMALARMS_ALARM_CLEAR\<rparr>)"
    and cyc: "\<And>inp s. I s \<Longrightarrow> I (AttitudeTask_cycle P inp s)"
    and cb: "\<And>d s s'. I s \<Longrightarrow> settingsUpdatedCb P (s\<lparr>attitudeSettings := d\<rparr>) = Inr s' \<Longrightarrow> I s'"
    and cb0: "\<And>s s'. I s \<Longrightarrow> settingsUpdatedCb P s = Inr s' \<Longrightarrow> I s'"
  shows "I t"
proof -
  from assms(1) obtain s0 where
    s0: "settingsUpdatedCb P ((AttitudeInitialize st att al)\<lparr>init := 0, alarm := SYSTEMALARMS_ALARM_CLEAR\<rparr>) = Inr s0"
    and r: "run_events P es s0 = Inr t"
    by (auto simp: AttitudeTask_def split: sum.splits)
  from cb0 [OF assms(2) s0] have "I s0" .
  with r show ?thesis using cyc cb by (rule run_events_invariant)
qed

lemma settingsUpdatedCb_frame:
  assumes "settingsUpdatedCb P s = Inr s'"
  shows "q s' = q s" "init s' = init s" "accel_filter_enabled s' = accel_filter_enabled s"
    "accelKp s' = AccelKp (attitudeSettings s)" "accelKi s' = AccelKi (attitudeSettings s)"
    "yawBiasRate s' = YawBiasRate (attitudeSettings s)"
    "AccelKp (attitudeSettings s') = AccelKp (attitudeSettings s)"
    "AccelKi (attitudeSettings s') = AccelKi (attitudeSettings s)"
    "YawBiasRate (attitudeSettings s') = YawBiasRate (attitudeSettings s)"
    "zero_during_arming s' = ZeroDuringArming (attitudeSettings s)"
    "alarm s' = alarm s" "lastSysTime s' = lastSysTime s"
  using assms
  by (auto simp: settingsUpdatedCb_def Let_def split_beta split: sum.splits if_splits)

lemma settingsUpdatedCb_trim_zero:
  assumes "settingsUpdatedCb P s = Inr s'"
    and "trim_samples s = 0" and "trim_accels s = (0, 0, 0)"
  shows "trim_samples s' = 0 \<and> trim_accels s' = (0, 0, 0)"
  using assms
  by (auto simp: settingsUpdatedCb_def Let_def split_beta split: sum.splits if_splits)

lemma settingsUpdatedCb_load_zero:
  assumes "TrimFlight (attitudeSettings s) = ATTITUDESETTINGS_TRIMFLIGHT_LOAD"
    and "trim_samples s = 0"
  shows "settingsUpdatedCb P s = Inl DivisionByZero"
  using assms
  by (simp add: settingsUpdatedCb_def Let_def split_beta int32_div_def)

lemma AttitudeTask_cycle_frame:
  "trim_samples (AttitudeTask_cycle P inp s) = trim_samples s"
  "trim_accels (AttitudeTask_cycle P inp s) = trim_accels s"
  "trim_requested (AttitudeTask_cycle P inp s) = trim_requested s"
  "attitudeSettings (AttitudeTask_cycle P inp s) = attitudeSettings s"
  "zero_during_arming (AttitudeTask_cycle P inp s) = zero_during_arming s"
proof -
  obtain r a' g' s' where u:
    "updateSensorsCC3D P inp (stack_accels inp) (stack_gyros inp) (AttitudeTask_gains inp s)
       = (r, a', g', s')"
    by (metis prod_cases4)
  note f = updateSensorsCC3D_frame [OF u]
  show "trim_samples (AttitudeTask_cycle P inp s) = trim_samples s"
    "trim_accels (AttitudeTask_cycle P inp s) = trim_accels s"
    "trim_requested (AttitudeTask_cycle P inp s) = trim_requested s"
    "attitudeSettings (AttitudeTask_cycle P inp s) = attitudeSettings s"
    "zero_during_arming (AttitudeTask_cycle P inp s) = zero_during_arming s"
    by (simp_all add: AttitudeTask_cycle_def u Let_def f updateAttitude_frame AttitudeTask_gains_frame)
qed

section \<open>The time step\<close>



text \<open>
  The hypothesis on the tick macros is needed: with two milliseconds to the tick, one
  elapsed tick gives a zero time step.
\<close>

lemma updateAttitude_dT_zero_at_500Hz:
  "updateAttitude_dT (sample_platform\<lparr>portTICK_RATE_MS := 2\<rparr>) 6 5 = 0"
  by (simp add: updateAttitude_dT_def sample_platform_def)



section \<open>The settings callback\<close>

lemma int32_div_fault:
  "int32_div a b = Inl e \<Longrightarrow>
     (b = 0 \<and> e = DivisionByZero) \<or> (sint a = - (2 ^ 31) \<and> sint b = - 1 \<and> e = SignedOverflow)"
  by (auto simp: int32_div_def split: if_splits)

text \<open>
  C10. Whenever \<open>settingsUpdatedCb\<close> returns, all three components of
  \<open>gyro_correct_int\<close> are the \<open>GyroBias\<close> fields of the settings object divided by
  100, whatever they were before and whichever field of the object changed. The callback
  can fail to return only in a \<open>LOAD\<close> command (a faulting division).
\<close>

theorem settings_overwrite_gyro_bias:
  "case settingsUpdatedCb P s of
     Inl e \<Rightarrow> TrimFlight (attitudeSettings s) = ATTITUDESETTINGS_TRIMFLIGHT_LOAD
   | Inr s' \<Rightarrow>
       gyro_correct_int s' =
         (case GyroBias (attitudeSettings s) of (gbx, gby, gbz) \<Rightarrow>
            (real_of_int (sint gbx) / 100, real_of_int (sint gby) / 100,
             real_of_int (sint gbz) / 100))"
  by (auto simp: settingsUpdatedCb_def Let_def split_beta split: sum.splits if_splits)

section \<open>Sensor timeout\<close>

text \<open>
  C5. When the sensor queue stays empty for the bounded wait (and the sensor objects are
  not read-only, so that the queue is read at all), \<open>updateSensorsCC3D\<close> returns -1
  with the state and the caller's structures untouched: nothing is mutated and nothing
  is published. The iteration of the task loop then consists of the choice of gains and
  of raising the alarm: the quaternion, the gyro-bias integral and the publish log are
  as before, and the alarm is Error. Any following iteration whose sensor update returns 0
  leaves the alarm cleared.
\<close>

theorem sensor_timeout_skips_fusion:
  assumes "\<not> GyrosReadOnly inp" and "\<not> AccelsReadOnly inp" and "queue inp = None"
  shows "updateSensorsCC3D P inp accelsData gyrosData s = (- 1, accelsData, gyrosData, s)
     \<and> AttitudeTask_cycle P inp s
           = (AttitudeTask_gains inp s)\<lparr>alarm := SYSTEMALARMS_ALARM_ERROR\<rparr>
     \<and> q (AttitudeTask_cycle P inp s) = q s
     \<and> gyro_correct_int (AttitudeTask_cycle P inp s) = gyro_correct_int s
     \<and> published (AttitudeTask_cycle P inp s) = published s
     \<and> alarm (AttitudeTask_cycle P inp s) = SYSTEMALARMS_ALARM_ERROR
     \<and> (\<forall>inp'. fst (updateSensorsCC3D P inp' (stack_accels inp') (stack_gyros inp')
                     (AttitudeTask_gains inp' (AttitudeTask_cycle P inp s))) = 0
            \<longrightarrow> alarm (AttitudeTask_cycle P inp' (AttitudeTask_cycle P inp s))
                  = SYSTEMALARMS_ALARM_CLEAR)"
proof -
  have c: "AttitudeTask_cycle P inp s
             = (AttitudeTask_gains inp s)\<lparr>alarm := SYSTEMALARMS_ALARM_ERROR\<rparr>"
    using assms by (simp add: AttitudeTask_cycle_def updateSensorsCC3D_timeout)
  show ?thesis
    using assms
    by (simp add: c updateSensorsCC3D_timeout AttitudeTask_gains_frame AttitudeTask_cycle_success)
qed

theorem sensor_timeout_skips_fusion_witness:
  "\<not> GyrosReadOnly sample_timeout \<and> \<not> AccelsReadOnly sample_timeout
   \<and> queue sample_timeout = None
   \<and> q (AttitudeTask_cycle sample_platform sample_timeout sample_boot) = q sample_boot
   \<and> gyro_correct_int (AttitudeTask_cycle sample_platform sample_timeout sample_boot)
        = gyro_correct_int sample_boot
   \<and> published (AttitudeTask_cycle sample_platform sample_timeout sample_boot)
        = published sample_boot
   \<and> alarm (AttitudeTask_cycle sample_platform sample_timeout sample_boot)
        = SYSTEMALARMS_ALARM_ERROR
   \<and> fst (updateSensorsCC3D sample_platform sample_cycle (stack_accels sample_cycle)
             (stack_gyros sample_cycle)
             (AttitudeTask_gains sample_cycle
                (AttitudeTask_cycle sample_platform sample_timeout sample_boot))) = 0
   \<and> alarm (AttitudeTask_cycle sample_platform sample_cycle
               (AttitudeTask_cycle sample_platform sample_timeout sample_boot))
        = SYSTEMALARMS_ALARM_CLEAR"
proof -
  have h: "\<not> GyrosReadOnly sample_timeout" "\<not> AccelsReadOnly sample_timeout"
    "queue sample_timeout = None"
    by (simp_all add: sample_timeout_def)
  have ok: "fst (updateSensorsCC3D sample_platform sample_cycle (stack_accels sample_cycle)
             (stack_gyros sample_cycle) s) = 0" for s
    by (simp add: updateSensorsCC3D_def sample_cycle_def sample_timeout_def Let_def split_beta)
  from sensor_timeout_skips_fusion [OF h, of sample_platform sample_accels sample_gyros sample_boot]
  show ?thesis using h ok by blast
qed

end
